theory Spec2Isabelle
  imports Main
begin

section \<open>Soft-delete repository: data model\<close>

text \<open>
  The development embeds \<^verbatim>\<open>DefaultTransactionSoftCrudRepository\<close>
  (\<^verbatim>\<open>src/repositories/default-transaction-soft-crud.repository.base.ts\<close>).
  Every method is asynchronous in the source; an \<^verbatim>\<open>await\<close> is sequencing, so a method
  is a function from the store's state to an outcome and the next state. A rejected
  promise is the \<open>Inl\<close> branch of the outcome.
\<close>

subsection \<open>JavaScript values of a user's id\<close>

text \<open>
  \<^verbatim>\<open>IAuthUser.id\<close> is declared \<^verbatim>\<open>number | string\<close> and is optional; at run time it
  may also be \<^verbatim>\<open>null\<close>. Numbers are modelled on the integers, which
  \<^verbatim>\<open>toString\<close> prints as plain digits up to a magnitude of \<open>10\<^sup>2\<^sup>1\<close> (an id that is
  larger, a fraction or NaN is outside the model).
\<close>

datatype js_value = JUndefined | JNull | JNumber int | JString string

text \<open>What \<^verbatim>\<open>!v\<close> tests: \<^verbatim>\<open>undefined\<close>, \<^verbatim>\<open>null\<close>, \<^verbatim>\<open>0\<close> and \<^verbatim>\<open>""\<close> are falsy.\<close>

fun truthy :: "js_value \<Rightarrow> bool" where
  "truthy JUndefined = False"
| "truthy JNull = False"
| "truthy (JNumber n) = (n \<noteq> 0)"
| "truthy (JString s) = (s \<noteq> [])"

definition digit_char :: "nat \<Rightarrow> char" where
  "digit_char d = ''0123456789'' ! d"

fun digits_of_nat :: "nat \<Rightarrow> string" where
  "digits_of_nat n =
     (if n < 10 then [digit_char n] else digits_of_nat (n div 10) @ [digit_char (n mod 10)])"

declare digits_of_nat.simps [simp del]

text \<open>\<^verbatim>\<open>Number.prototype.toString()\<close> on an integer: its decimal digits, signed.\<close>

definition Number_toString :: "int \<Rightarrow> string" where
  "Number_toString n =
     (if n < 0 then CHR ''-'' # digits_of_nat (nat (- n)) else digits_of_nat (nat n))"

datatype error =
    HttpErrors_NotFound string   \<comment> \<open>\<^verbatim>\<open>new HttpErrors.NotFound(key)\<close>, thrown by this layer\<close>
  | EntityNotFoundError          \<comment> \<open>the underlying store's own not-found error\<close>
  | TypeError                    \<comment> \<open>a method call on \<^verbatim>\<open>undefined\<close> or \<^verbatim>\<open>null\<close>\<close>
  | Rejected string              \<comment> \<open>any other rejection of a collaborator\<close>

text \<open>\<^verbatim>\<open>v.toString()\<close>: a method call, so it throws on \<^verbatim>\<open>undefined\<close> and \<^verbatim>\<open>null\<close>.\<close>

fun toString :: "js_value \<Rightarrow> error + string" where
  "toString JUndefined = Inl TypeError"
| "toString JNull = Inl TypeError"
| "toString (JNumber n) = Inr (Number_toString n)"
| "toString (JString s) = Inr s"

text \<open>
  Modelled from the spec: the constant \<^verbatim>\<open>ErrorKeys.EntityNotFound\<close>, imported from
  \<^verbatim>\<open>../error-keys\<close>, a module whose code is not at hand; the spec calls the error
  EntityNotFound.
\<close>

definition ErrorKeys_EntityNotFound :: string where
  "ErrorKeys_EntityNotFound = ''EntityNotFound''"

subsection \<open>Users, options, entities\<close>

record IAuthUser =
  user_id :: js_value   \<comment> \<open>the field \<^verbatim>\<open>id\<close>\<close>

text \<open>
  The options bag is an untyped dictionary; the one key this layer reads is
  \<^verbatim>\<open>currentUser\<close> (\<open>None\<close> when the key is absent or nullish).
\<close>

record Options =
  currentUser :: "IAuthUser option"

text \<open>
  \<^verbatim>\<open>Getter<IAuthUser | undefined>\<close>: an asynchronous function of no argument. Its
  promise either rejects (\<open>Inl\<close>) or yields a user or \<^verbatim>\<open>undefined\<close>.
\<close>

type_synonym Getter = "unit \<Rightarrow> error + IAuthUser option"

type_synonym Date = nat

text \<open>
  \<^verbatim>\<open>T extends SoftDeleteEntity\<close>: the three soft-delete attributes, the primary key
  returned by \<^verbatim>\<open>getId()\<close>, and every other field of \<open>T\<close> in \<open>other\<close>.
\<close>

record ('id, 'm) SoftDeleteEntity =
  getId :: 'id
  deleted :: bool
  deletedOn :: "Date option"
  deletedBy :: "string option"
  other :: 'm

subsection \<open>Where clauses, filters and data objects\<close>

text \<open>
  \<^verbatim>\<open>Where<T>\<close>, \<^verbatim>\<open>Filter<T>\<close> and \<^verbatim>\<open>DataObject<T>\<close> are types of the
  \<^verbatim>\<open>@loopback/repository\<close> library. A where clause is an equality constraint on the
  id, on the \<open>deleted\<close> flag, any constraint on the other fields, or an \<^verbatim>\<open>and\<close> /
  \<^verbatim>\<open>or\<close> of clauses; the empty clause \<^verbatim>\<open>{}\<close> is \<open>And []\<close>.
\<close>

datatype ('id, 'm) Where =
    Cond_id 'id
  | Cond_deleted bool
  | Cond_other "'m \<Rightarrow> bool"
  | And "('id, 'm) Where list"
  | Or "('id, 'm) Where list"

text \<open>
  A filter is a query description: the optional where clause and the pagination
  options \<^verbatim>\<open>limit\<close> and \<^verbatim>\<open>skip\<close>.
\<close>

record ('id, 'm) Filter =
  where_clause :: "('id, 'm) Where option"
  limit :: "nat option"
  skip :: "nat option"

text \<open>
  A data object is a partial entity: a key that is absent or \<^verbatim>\<open>undefined\<close> is
  \<open>None\<close>; \<open>set_other\<close> is what the object does to the fields this layer does not know
  (\<open>id\<close> when it names none of them).
\<close>

record 'm DataObject =
  set_deleted :: "bool option"
  set_deletedOn :: "Date option"
  set_deletedBy :: "string option"
  set_other :: "'m \<Rightarrow> 'm"

subsection \<open>The repository object\<close>

text \<open>
  An asynchronous call runs on the store's state \<open>'s\<close> and settles to a value or
  rejects; the state after it is returned in both cases.
\<close>

type_synonym ('a, 's) Promise = "'s \<Rightarrow> (error + 'a) \<times> 's"

text \<open>
  \<open>this\<close>: the constructor's optional \<^verbatim>\<open>getCurrentUser\<close> and the methods inherited
  from \<^verbatim>\<open>DefaultTransactionalRepository\<close>, which the class reaches through
  \<^verbatim>\<open>super\<close>. The superclass belongs to the \<^verbatim>\<open>@loopback/repository\<close> library, so its
  methods are parameters of the model.
\<close>

record ('id, 'm, 's) Repository =
  getCurrentUser :: "Getter option"
  super_find ::
    "('id, 'm) Filter option \<Rightarrow> Options option \<Rightarrow> (('id, 'm) SoftDeleteEntity list, 's) Promise"
  super_findOne ::
    "('id, 'm) Filter option \<Rightarrow> Options option \<Rightarrow> (('id, 'm) SoftDeleteEntity option, 's) Promise"
  super_findById ::
    "'id \<Rightarrow> ('id, 'm) Filter option \<Rightarrow> Options option \<Rightarrow> (('id, 'm) SoftDeleteEntity, 's) Promise"
  super_updateAll ::
    "'m DataObject \<Rightarrow> ('id, 'm) Where option \<Rightarrow> Options option \<Rightarrow> (nat, 's) Promise"
  super_count :: "('id, 'm) Where option \<Rightarrow> Options option \<Rightarrow> (nat, 's) Promise"
  super_update :: "('id, 'm) SoftDeleteEntity \<Rightarrow> Options option \<Rightarrow> (unit, 's) Promise"
  super_updateById :: "'id \<Rightarrow> 'm DataObject \<Rightarrow> Options option \<Rightarrow> (unit, 's) Promise"
  super_deleteById :: "'id \<Rightarrow> Options option \<Rightarrow> (unit, 's) Promise"
  super_deleteAll :: "('id, 'm) Where option \<Rightarrow> Options option \<Rightarrow> (nat, 's) Promise"

section \<open>The predicate rewriter\<close>

text \<open>
  Modelled from the spec: \<^verbatim>\<open>produceSoftDeleteWhere\<close>, imported from \<^verbatim>\<open>./repo-utils\<close>,
  a module whose code is not at hand. Section 4.1 (\<^verbatim>\<open>augmentWhere\<close>): the logical AND
  of the original where clause, when there is one, and \<^verbatim>\<open>{deleted: false}\<close>.
\<close>

definition produceSoftDeleteWhere :: "('id, 'm) Where option \<Rightarrow> ('id, 'm) Where" where
  "produceSoftDeleteWhere whr =
     (case whr of
        None \<Rightarrow> And [Cond_deleted False]
      | Some w \<Rightarrow> And [w, Cond_deleted False])"

text \<open>
  Modelled from the spec: \<^verbatim>\<open>produceSoftDeleteFilter\<close>, imported from \<^verbatim>\<open>./repo-utils\<close>,
  a module whose code is not at hand. Section 4.1 (\<^verbatim>\<open>augmentFilter\<close>): a filter whose
  where clause is the logical AND of the original where clause, \<^verbatim>\<open>{deleted: false}\<close>
  and the extra equality constraints; an absent filter gives a new filter that holds
  only the exclusion and the extras. Nothing else of the filter changes. The extra
  constraints are a list of conditions, empty when the argument is left out.
\<close>

definition produceSoftDeleteFilter ::
  "('id, 'm) Filter option \<Rightarrow> ('id, 'm) Where list \<Rightarrow> ('id, 'm) Filter" where
  "produceSoftDeleteFilter flt extraWhere =
     (case flt of
        None \<Rightarrow>
          \<lparr>where_clause = Some (And (Cond_deleted False # extraWhere)),
           limit = None, skip = None\<rparr>
      | Some f \<Rightarrow>
          f\<lparr>where_clause :=
              Some (And (case where_clause f of
                           None \<Rightarrow> Cond_deleted False # extraWhere
                         | Some w \<Rightarrow> w # Cond_deleted False # extraWhere))\<rparr>)"

section \<open>The soft-delete repository\<close>

text \<open>
  \<^verbatim>\<open>getUserId(options?)\<close>, lines 176-186. \<^verbatim>\<open>??\<close> takes its right operand when the
  left one is \<^verbatim>\<open>undefined\<close> or \<^verbatim>\<open>null\<close>.
\<close>

definition getUserId :: "('id, 'm, 's) Repository \<Rightarrow> Options option \<Rightarrow> error + string option" where
  "getUserId this options =
     (case getCurrentUser this of
        None \<Rightarrow> Inr None
      | Some getter \<Rightarrow>
          (case getter () of
             Inl e \<Rightarrow> Inl e
           | Inr yielded \<Rightarrow>
               (let user =
                      (case yielded of
                         Some u \<Rightarrow> Some u
                       | None \<Rightarrow> (case options of None \<Rightarrow> None | Some opts \<Rightarrow> currentUser opts))
                in case user of
                     None \<Rightarrow> Inr None
                   | Some u \<Rightarrow>
                       if \<not> truthy (user_id u) then Inr None
                       else (case toString (user_id u) of
                               Inl e \<Rightarrow> Inl e
                             | Inr s \<Rightarrow> Inr (Some s)))))"

text \<open>\<^verbatim>\<open>find\<close>, lines 33-39.\<close>

definition find_soft ::
  "('id, 'm, 's) Repository \<Rightarrow> ('id, 'm) Filter option \<Rightarrow> Options option
     \<Rightarrow> (('id, 'm) SoftDeleteEntity list, 's) Promise" where
  "find_soft this flt options = super_find this (Some (produceSoftDeleteFilter flt [])) options"

text \<open>\<^verbatim>\<open>findAll\<close>, lines 42-44.\<close>

definition findAll ::
  "('id, 'm, 's) Repository \<Rightarrow> ('id, 'm) Filter option \<Rightarrow> Options option
     \<Rightarrow> (('id, 'm) SoftDeleteEntity list, 's) Promise" where
  "findAll this flt options = super_find this flt options"

text \<open>\<^verbatim>\<open>findOne\<close>, lines 46-54.\<close>

definition findOne ::
  "('id, 'm, 's) Repository \<Rightarrow> ('id, 'm) Filter option \<Rightarrow> Options option
     \<Rightarrow> (('id, 'm) SoftDeleteEntity option, 's) Promise" where
  "findOne this flt options = super_findOne this (Some (produceSoftDeleteFilter flt [])) options"

text \<open>\<^verbatim>\<open>findOneIncludeSoftDelete\<close>, lines 57-62.\<close>

definition findOneIncludeSoftDelete ::
  "('id, 'm, 's) Repository \<Rightarrow> ('id, 'm) Filter option \<Rightarrow> Options option
     \<Rightarrow> (('id, 'm) SoftDeleteEntity option, 's) Promise" where
  "findOneIncludeSoftDelete this flt options = super_findOne this flt options"

text \<open>
  \<^verbatim>\<open>findById\<close>, lines 64-82. The extra where object is \<^verbatim>\<open>{id}\<close>; the probe's result
  is tested for truthiness, so \<^verbatim>\<open>null\<close> takes the \<^verbatim>\<open>else\<close> branch.
\<close>

definition findById ::
  "('id, 'm, 's) Repository \<Rightarrow> 'id \<Rightarrow> ('id, 'm) Filter option \<Rightarrow> Options option
     \<Rightarrow> (('id, 'm) SoftDeleteEntity, 's) Promise" where
  "findById this i flt options st =
     (let flt' = produceSoftDeleteFilter flt [Cond_id i] in
      case super_findOne this (Some flt') options st of
        (Inl e, st1) \<Rightarrow> (Inl e, st1)
      | (Inr entityToRemove, st1) \<Rightarrow>
          (case entityToRemove of
             Some _ \<Rightarrow> super_findById this i (Some flt') options st1
           | None \<Rightarrow> (Inl (HttpErrors_NotFound ErrorKeys_EntityNotFound), st1)))"

text \<open>\<^verbatim>\<open>findByIdIncludeSoftDelete\<close>, lines 85-91.\<close>

definition findByIdIncludeSoftDelete ::
  "('id, 'm, 's) Repository \<Rightarrow> 'id \<Rightarrow> ('id, 'm) Filter option \<Rightarrow> Options option
     \<Rightarrow> (('id, 'm) SoftDeleteEntity, 's) Promise" where
  "findByIdIncludeSoftDelete this i flt options = super_findById this i flt options"

text \<open>\<^verbatim>\<open>updateAll\<close>, lines 93-102.\<close>

definition updateAll ::
  "('id, 'm, 's) Repository \<Rightarrow> 'm DataObject \<Rightarrow> ('id, 'm) Where option \<Rightarrow> Options option
     \<Rightarrow> (nat, 's) Promise" where
  "updateAll this data whr options =
     super_updateAll this data (Some (produceSoftDeleteWhere whr)) options"

text \<open>\<^verbatim>\<open>count\<close>, lines 104-110.\<close>

definition count ::
  "('id, 'm, 's) Repository \<Rightarrow> ('id, 'm) Where option \<Rightarrow> Options option \<Rightarrow> (nat, 's) Promise" where
  "count this whr options = super_count this (Some (produceSoftDeleteWhere whr)) options"

text \<open>
  \<^verbatim>\<open>delete\<close>, lines 112-118. The caller's entity object is mutated in place, so the
  entity after the call is returned beside the outcome. \<open>now\<close> is what \<^verbatim>\<open>new Date()\<close>
  reads. The two assignments before the \<^verbatim>\<open>await\<close> stand when \<^verbatim>\<open>getUserId\<close>
  rejects. \<^verbatim>\<open>getUserId\<close> is called with no argument.
\<close>

definition delete ::
  "('id, 'm, 's) Repository \<Rightarrow> Date \<Rightarrow> ('id, 'm) SoftDeleteEntity \<Rightarrow> Options option \<Rightarrow> 's
     \<Rightarrow> ((error + unit) \<times> 's) \<times> ('id, 'm) SoftDeleteEntity" where
  "delete this now entity options st =
     (let entity1 = entity\<lparr>deleted := True\<rparr>;
          entity2 = entity1\<lparr>deletedOn := Some now\<rparr>
      in case getUserId this None of
           Inl e \<Rightarrow> ((Inl e, st), entity2)
         | Inr uid \<Rightarrow>
             (let entity3 = entity2\<lparr>deletedBy := uid\<rparr>
              in (super_update this entity3 options st, entity3)))"

text \<open>
  \<^verbatim>\<open>deleteAll\<close>, lines 120-131. The object literal reads the clock once and awaits
  \<^verbatim>\<open>getUserId()\<close> once; \<^verbatim>\<open>this.updateAll\<close> is the method of this class.
\<close>

definition deleteAll ::
  "('id, 'm, 's) Repository \<Rightarrow> Date \<Rightarrow> ('id, 'm) Where option \<Rightarrow> Options option
     \<Rightarrow> (nat, 's) Promise" where
  "deleteAll this now whr options st =
     (case getUserId this None of
        Inl e \<Rightarrow> (Inl e, st)
      | Inr uid \<Rightarrow>
          updateAll this
            \<lparr>set_deleted = Some True, set_deletedOn = Some now, set_deletedBy = uid,
             set_other = id\<rparr>
            whr options st)"

text \<open>\<^verbatim>\<open>deleteById\<close>, lines 133-144.\<close>

definition deleteById ::
  "('id, 'm, 's) Repository \<Rightarrow> Date \<Rightarrow> 'id \<Rightarrow> Options option \<Rightarrow> (unit, 's) Promise" where
  "deleteById this now i options st =
     (case getUserId this None of
        Inl e \<Rightarrow> (Inl e, st)
      | Inr uid \<Rightarrow>
          super_updateById this i
            \<lparr>set_deleted = Some True, set_deletedOn = Some now, set_deletedBy = uid,
             set_other = id\<rparr>
            options st)"

text \<open>\<^verbatim>\<open>deleteHard\<close>, \<^verbatim>\<open>deleteAllHard\<close>, \<^verbatim>\<open>deleteByIdHard\<close>, lines 151-174.\<close>

definition deleteHard ::
  "('id, 'm, 's) Repository \<Rightarrow> ('id, 'm) SoftDeleteEntity \<Rightarrow> Options option \<Rightarrow> (unit, 's) Promise" where
  "deleteHard this entity options = super_deleteById this (getId entity) options"

definition deleteAllHard ::
  "('id, 'm, 's) Repository \<Rightarrow> ('id, 'm) Where option \<Rightarrow> Options option \<Rightarrow> (nat, 's) Promise" where
  "deleteAllHard this whr options = super_deleteAll this whr options"

definition deleteByIdHard ::
  "('id, 'm, 's) Repository \<Rightarrow> 'id \<Rightarrow> Options option \<Rightarrow> (unit, 's) Promise" where
  "deleteByIdHard this i options = super_deleteById this i options"

section \<open>A reference store\<close>

text \<open>
  Modelled from the spec: the underlying store of section 6 ("standard filtered
  read/write"), in the source the \<^verbatim>\<open>@loopback/repository\<close> superclass, whose code is
  not at hand. The state is the list of stored records in storage order. A read
  returns the records that satisfy the where clause and applies the filter's
  pagination to them: it skips, then limits. A conditional update patches the records
  that satisfy the where clause and counts them. The by-id operations look at the id
  alone (the source notes that the superclass's by-id fetch takes a filter without a
  where clause) and reject with the store's own not-found error when no record has
  the id. A key of a data object that is \<^verbatim>\<open>undefined\<close> is not written.
\<close>

fun matches :: "('id, 'm) Where \<Rightarrow> ('id, 'm) SoftDeleteEntity \<Rightarrow> bool" where
  "matches (Cond_id i) e = (getId e = i)"
| "matches (Cond_deleted b) e = (deleted e = b)"
| "matches (Cond_other p) e = p (other e)"
| "matches (And ws) e = list_all (\<lambda>w. matches w e) ws"
| "matches (Or ws) e = list_ex (\<lambda>w. matches w e) ws"

definition matches_opt :: "('id, 'm) Where option \<Rightarrow> ('id, 'm) SoftDeleteEntity \<Rightarrow> bool" where
  "matches_opt whr e = (case whr of None \<Rightarrow> True | Some w \<Rightarrow> matches w e)"

definition paginate :: "('id, 'm) Filter \<Rightarrow> 'a list \<Rightarrow> 'a list" where
  "paginate f xs =
     (let skipped = (case skip f of None \<Rightarrow> xs | Some k \<Rightarrow> drop k xs)
      in case limit f of None \<Rightarrow> skipped | Some n \<Rightarrow> take n skipped)"

definition query :: "('id, 'm) Filter option \<Rightarrow> ('id, 'm) SoftDeleteEntity list
    \<Rightarrow> ('id, 'm) SoftDeleteEntity list" where
  "query flt st =
     (case flt of
        None \<Rightarrow> st
      | Some f \<Rightarrow> paginate f (filter (matches_opt (where_clause f)) st))"

definition apply_data :: "'m DataObject \<Rightarrow> ('id, 'm) SoftDeleteEntity \<Rightarrow> ('id, 'm) SoftDeleteEntity" where
  "apply_data d e =
     e\<lparr>deleted := (case set_deleted d of None \<Rightarrow> deleted e | Some b \<Rightarrow> b),
       deletedOn := (case set_deletedOn d of None \<Rightarrow> deletedOn e | Some t \<Rightarrow> Some t),
       deletedBy := (case set_deletedBy d of None \<Rightarrow> deletedBy e | Some u \<Rightarrow> Some u),
       other := set_other d (other e)\<rparr>"

text \<open>An entity handed over as data: every field it defines.\<close>

definition entity_data :: "('id, 'm) SoftDeleteEntity \<Rightarrow> 'm DataObject" where
  "entity_data e =
     \<lparr>set_deleted = Some (deleted e), set_deletedOn = deletedOn e,
      set_deletedBy = deletedBy e, set_other = (\<lambda>_. other e)\<rparr>"

definition mem_find ::
  "('id, 'm) Filter option \<Rightarrow> Options option
     \<Rightarrow> (('id, 'm) SoftDeleteEntity list, ('id, 'm) SoftDeleteEntity list) Promise" where
  "mem_find flt options st = (Inr (query flt st), st)"

text \<open>The single-result read is the read with the limit set to one.\<close>

definition mem_findOne ::
  "('id, 'm) Filter option \<Rightarrow> Options option
     \<Rightarrow> (('id, 'm) SoftDeleteEntity option, ('id, 'm) SoftDeleteEntity list) Promise" where
  "mem_findOne flt options st =
     (let f = (case flt of
                 None \<Rightarrow> \<lparr>where_clause = None, limit = Some 1, skip = None\<rparr>
               | Some f \<Rightarrow> f\<lparr>limit := Some 1\<rparr>)
      in case query (Some f) st of
           [] \<Rightarrow> (Inr None, st)
         | e # _ \<Rightarrow> (Inr (Some e), st))"

definition mem_findById ::
  "'id \<Rightarrow> ('id, 'm) Filter option \<Rightarrow> Options option
     \<Rightarrow> (('id, 'm) SoftDeleteEntity, ('id, 'm) SoftDeleteEntity list) Promise" where
  "mem_findById i flt options st =
     (case filter (\<lambda>e. getId e = i) st of
        [] \<Rightarrow> (Inl EntityNotFoundError, st)
      | e # _ \<Rightarrow> (Inr e, st))"

definition mem_updateAll ::
  "'m DataObject \<Rightarrow> ('id, 'm) Where option \<Rightarrow> Options option
     \<Rightarrow> (nat, ('id, 'm) SoftDeleteEntity list) Promise" where
  "mem_updateAll d whr options st =
     (Inr (length (filter (matches_opt whr) st)),
      map (\<lambda>e. if matches_opt whr e then apply_data d e else e) st)"

definition mem_count ::
  "('id, 'm) Where option \<Rightarrow> Options option \<Rightarrow> (nat, ('id, 'm) SoftDeleteEntity list) Promise" where
  "mem_count whr options st = (Inr (length (filter (matches_opt whr) st)), st)"

definition mem_updateById ::
  "'id \<Rightarrow> 'm DataObject \<Rightarrow> Options option \<Rightarrow> (unit, ('id, 'm) SoftDeleteEntity list) Promise" where
  "mem_updateById i d options st =
     (if list_ex (\<lambda>e. getId e = i) st
      then (Inr (), map (\<lambda>e. if getId e = i then apply_data d e else e) st)
      else (Inl EntityNotFoundError, st))"

text \<open>Update by identity: the update by id of the entity's own id, with the entity as data.\<close>

definition mem_update ::
  "('id, 'm) SoftDeleteEntity \<Rightarrow> Options option \<Rightarrow> (unit, ('id, 'm) SoftDeleteEntity list) Promise" where
  "mem_update e options st = mem_updateById (getId e) (entity_data e) options st"

definition mem_deleteById ::
  "'id \<Rightarrow> Options option \<Rightarrow> (unit, ('id, 'm) SoftDeleteEntity list) Promise" where
  "mem_deleteById i options st =
     (if list_ex (\<lambda>e. getId e = i) st
      then (Inr (), filter (\<lambda>e. getId e \<noteq> i) st)
      else (Inl EntityNotFoundError, st))"

definition mem_deleteAll ::
  "('id, 'm) Where option \<Rightarrow> Options option \<Rightarrow> (nat, ('id, 'm) SoftDeleteEntity list) Promise" where
  "mem_deleteAll whr options st =
     (Inr (length (filter (matches_opt whr) st)), filter (\<lambda>e. \<not> matches_opt whr e) st)"

text \<open>The repository over the reference store, with the given identity accessor.\<close>

definition MemoryRepository ::
  "Getter option \<Rightarrow> ('id, 'm, ('id, 'm) SoftDeleteEntity list) Repository" where
  "MemoryRepository getter =
     \<lparr>getCurrentUser = getter,
      super_find = mem_find, super_findOne = mem_findOne, super_findById = mem_findById,
      super_updateAll = mem_updateAll, super_count = mem_count, super_update = mem_update,
      super_updateById = mem_updateById, super_deleteById = mem_deleteById,
      super_deleteAll = mem_deleteAll\<rparr>"

text \<open>The data-model invariant of section 3, for one record.\<close>

definition tombstone_inv :: "('id, 'm) SoftDeleteEntity \<Rightarrow> bool" where
  "tombstone_inv e = (deleted e = (deletedOn e \<noteq> None))"

subsection \<open>The store as a superclass\<close>

text \<open>
  Modelled from the spec: the underlying store's update by id and update by identity
  (section 6) as the \<^verbatim>\<open>@loopback/repository\<close> superclass, whose code is not at hand,
  builds them. Section 9 notes that the class inherits from the store it intercepts;
  the superclass's \<^verbatim>\<open>updateById(id, data)\<close> is \<^verbatim>\<open>this.updateAll(data, {id})\<close>,
  rejecting with the store's not-found error when that counts no record, and its
  \<^verbatim>\<open>update(entity)\<close> is \<^verbatim>\<open>this.updateById(entity.getId(), entity)\<close>. The
  \<^verbatim>\<open>updateAll\<close> that \<^verbatim>\<open>this\<close> dispatches to is the override of this class, so the
  where clause \<^verbatim>\<open>{id}\<close> goes through the rewriter before it reaches the store.
\<close>

definition dispatch_updateById ::
  "Getter option \<Rightarrow> 'id \<Rightarrow> 'm DataObject \<Rightarrow> Options option
     \<Rightarrow> (unit, ('id, 'm) SoftDeleteEntity list) Promise" where
  "dispatch_updateById getter i d options st =
     (case updateAll (MemoryRepository getter) d (Some (Cond_id i)) options st of
        (Inl e, st1) \<Rightarrow> (Inl e, st1)
      | (Inr n, st1) \<Rightarrow> if n = 0 then (Inl EntityNotFoundError, st1) else (Inr (), st1))"

definition dispatch_update ::
  "Getter option \<Rightarrow> ('id, 'm) SoftDeleteEntity \<Rightarrow> Options option
     \<Rightarrow> (unit, ('id, 'm) SoftDeleteEntity list) Promise" where
  "dispatch_update getter e options st =
     dispatch_updateById getter (getId e) (entity_data e) options st"

text \<open>
  The repository whose inherited update operations dispatch to this class; its
  other inherited operations are those of the reference store.
\<close>

definition InheritingRepository ::
  "Getter option \<Rightarrow> ('id, 'm, ('id, 'm) SoftDeleteEntity list) Repository" where
  "InheritingRepository getter =
     (MemoryRepository getter)
       \<lparr>super_update := dispatch_update getter,
        super_updateById := dispatch_updateById getter\<rparr>"

section \<open>Resolving the actor\<close>

lemma getUserId_yields_user:
  assumes "getCurrentUser this = Some getter" and "getter () = Inr (Some u)"
  shows "getUserId this options =
           (case user_id u of
              JNumber n \<Rightarrow> if n = 0 then Inr None else Inr (Some (Number_toString n))
            | JString s \<Rightarrow> if s = [] then Inr None else Inr (Some s)
            | _ \<Rightarrow> Inr None)"
  using assms by (simp add: getUserId_def split: js_value.splits)

lemma getUserId_hard_delete_irrelevant:
  "getUserId (this\<lparr>super_deleteById := hardById, super_deleteAll := hardAll\<rparr>) options =
   getUserId this options"
  by (simp add: getUserId_def)

section \<open>What the soft-delete operations hand to the store\<close>

lemma deleteById_resolved:
  "getUserId this None = Inr uid \<Longrightarrow>
   deleteById this now i options st =
     super_updateById this i
       \<lparr>set_deleted = Some True, set_deletedOn = Some now, set_deletedBy = uid, set_other = id\<rparr>
       options st"
  by (simp add: deleteById_def)

lemma deleteAll_resolved:
  "getUserId this None = Inr uid \<Longrightarrow>
   deleteAll this now whr options st =
     super_updateAll this
       \<lparr>set_deleted = Some True, set_deletedOn = Some now, set_deletedBy = uid, set_other = id\<rparr>
       (Some (produceSoftDeleteWhere whr)) options st"
  by (simp add: deleteAll_def updateAll_def)

lemma delete_resolved:
  "getUserId this None = Inr uid \<Longrightarrow>
   delete this now entity options st =
     (super_update this (entity\<lparr>deleted := True, deletedOn := Some now, deletedBy := uid\<rparr>) options st,
      entity\<lparr>deleted := True, deletedOn := Some now, deletedBy := uid\<rparr>)"
  by (simp add: delete_def Let_def)

section \<open>The rewriter and the reference store\<close>

lemma MemoryRepository_sel [simp]:
  "getCurrentUser (MemoryRepository getter) = getter"
  "super_find (MemoryRepository getter) = mem_find"
  "super_findOne (MemoryRepository getter) = mem_findOne"
  "super_findById (MemoryRepository getter) = mem_findById"
  "super_updateAll (MemoryRepository getter) = mem_updateAll"
  "super_count (MemoryRepository getter) = mem_count"
  "super_update (MemoryRepository getter) = mem_update"
  "super_updateById (MemoryRepository getter) = mem_updateById"
  "super_deleteById (MemoryRepository getter) = mem_deleteById"
  "super_deleteAll (MemoryRepository getter) = mem_deleteAll"
  by (simp_all add: MemoryRepository_def)

lemma paginate_Nil: "paginate f [] = []"
  by (simp add: paginate_def split: option.splits)

lemma matches_produceSoftDeleteWhere:
  "matches_opt (Some (produceSoftDeleteWhere whr)) = (\<lambda>e. matches_opt whr e \<and> \<not> deleted e)"
  by (rule ext) (simp add: produceSoftDeleteWhere_def matches_opt_def split: option.splits)

lemma matches_produceSoftDeleteFilter:
  "matches_opt (where_clause (produceSoftDeleteFilter flt extraWhere)) =
     (\<lambda>e. matches_opt (Option.bind flt where_clause) e \<and> \<not> deleted e
          \<and> list_all (\<lambda>w. matches w e) extraWhere)"
  by (rule ext) (simp add: produceSoftDeleteFilter_def matches_opt_def split: option.splits)

lemma query_no_pagination:
  "limit f = None \<Longrightarrow> skip f = None \<Longrightarrow>
   query (Some f) st = filter (matches_opt (where_clause f)) st"
  by (simp add: query_def paginate_def)

lemma produceSoftDeleteFilter_limit:
  "limit (produceSoftDeleteFilter flt extraWhere) = Option.bind flt limit"
  by (simp add: produceSoftDeleteFilter_def split: option.splits)

lemma produceSoftDeleteFilter_skip:
  "skip (produceSoftDeleteFilter flt extraWhere) = Option.bind flt skip"
  by (simp add: produceSoftDeleteFilter_def split: option.splits)

lemma tombstone_inv_apply_data:
  "set_deleted d = Some True \<Longrightarrow> set_deletedOn d = Some now \<Longrightarrow> tombstone_inv (apply_data d e)"
  by (simp add: tombstone_inv_def apply_data_def)

lemma tombstone_inv_mem_updateAll:
  assumes "list_all tombstone_inv st" and "set_deleted d = Some True" and "set_deletedOn d = Some now"
  shows "list_all tombstone_inv (snd (mem_updateAll d whr options st))"
  using assms(1) tombstone_inv_apply_data [OF assms(2,3)]
  by (auto simp: mem_updateAll_def list_all_iff)

lemma tombstone_inv_mem_updateById:
  assumes "list_all tombstone_inv st" and "set_deleted d = Some True" and "set_deletedOn d = Some now"
  shows "list_all tombstone_inv (snd (mem_updateById i d options st))"
  using assms(1) tombstone_inv_apply_data [OF assms(2,3)]
  by (auto simp: mem_updateById_def list_all_iff)

section \<open>The store whose updates dispatch to this class\<close>

lemma InheritingRepository_sel [simp]:
  "getCurrentUser (InheritingRepository getter) = getter"
  "super_find (InheritingRepository getter) = mem_find"
  "super_findOne (InheritingRepository getter) = mem_findOne"
  "super_findById (InheritingRepository getter) = mem_findById"
  "super_updateAll (InheritingRepository getter) = mem_updateAll"
  "super_count (InheritingRepository getter) = mem_count"
  "super_update (InheritingRepository getter) = dispatch_update getter"
  "super_updateById (InheritingRepository getter) = dispatch_updateById getter"
  "super_deleteById (InheritingRepository getter) = mem_deleteById"
  "super_deleteAll (InheritingRepository getter) = mem_deleteAll"
  by (simp_all add: InheritingRepository_def)

lemma updateAll_InheritingRepository:
  "updateAll (InheritingRepository getter) = updateAll (MemoryRepository getter)"
  by (rule ext)+ (simp add: updateAll_def)

lemma dispatch_updateById_eq:
  "dispatch_updateById getter i d options st =
     (if list_ex (\<lambda>e. getId e = i \<and> \<not> deleted e) st
      then (Inr (), map (\<lambda>e. if getId e = i \<and> \<not> deleted e then apply_data d e else e) st)
      else (Inl EntityNotFoundError, st))"
proof -
  have m: "matches_opt (Some (produceSoftDeleteWhere (Some (Cond_id i)))) =
             (\<lambda>e. getId e = i \<and> \<not> deleted e)"
    by (simp add: matches_produceSoftDeleteWhere matches_opt_def)
  show ?thesis
  proof (cases "list_ex (\<lambda>e. getId e = i \<and> \<not> deleted e) st")
    case True
    then have "filter (\<lambda>e. getId e = i \<and> \<not> deleted e) st \<noteq> []"
      by (simp add: list_ex_iff filter_empty_conv)
    with True show ?thesis
      by (simp add: dispatch_updateById_def updateAll_def mem_updateAll_def m)
  next
    case False
    then have none: "\<forall>e \<in> set st. \<not> (getId e = i \<and> \<not> deleted e)"
      by (simp add: list_ex_iff)
    then have "filter (\<lambda>e. getId e = i \<and> \<not> deleted e) st = []"
      by (simp add: filter_empty_conv)
    moreover from none
    have "map (\<lambda>e. if getId e = i \<and> \<not> deleted e then apply_data d e else e) st = st"
      by (intro map_idI) auto
    ultimately show ?thesis
      using False
      by (simp add: dispatch_updateById_def updateAll_def mem_updateAll_def m)
  qed
qed

lemma tombstone_inv_dispatch_updateById:
  assumes "list_all tombstone_inv st" and "set_deleted d = Some True" and "set_deletedOn d = Some now"
  shows "list_all tombstone_inv (snd (dispatch_updateById getter i d options st))"
  using assms(1) tombstone_inv_apply_data [OF assms(2,3)]
  by (auto simp: dispatch_updateById_eq list_all_iff)

section \<open>The claims\<close>

subsection \<open>Reads\<close>

text \<open>
  C1, as amended. For every filter, \<^verbatim>\<open>find\<close> hands the filter to the rewriter and the
  result to the store's find, and \<^verbatim>\<open>findAll\<close> hands the store's find the filter as it
  is. For a filter that sets neither \<^verbatim>\<open>limit\<close> nor \<^verbatim>\<open>skip\<close> (or no filter at all),
  \<^verbatim>\<open>find\<close> on the reference store returns exactly the records of \<^verbatim>\<open>findAll\<close>'s result
  whose \<open>deleted\<close> flag is false, in the same order.
\<close>

theorem find_is_undeleted_findAll:
  "find_soft this flt options = super_find this (Some (produceSoftDeleteFilter flt [])) options
   \<and> findAll this flt options = super_find this flt options
   \<and> ((case flt of None \<Rightarrow> True | Some f \<Rightarrow> limit f = None \<and> skip f = None) \<longrightarrow>
        findAll (MemoryRepository getter) flt options st = (Inr (query flt st), st)
        \<and> find_soft (MemoryRepository getter) flt options st =
            (Inr (filter (\<lambda>e. \<not> deleted e) (query flt st)), st))"
proof -
  have "query (Some (produceSoftDeleteFilter flt [])) st = filter (\<lambda>e. \<not> deleted e) (query flt st)"
    if "case flt of None \<Rightarrow> True | Some f \<Rightarrow> limit f = None \<and> skip f = None"
    using that
    by (cases flt)
      (simp_all add: query_no_pagination produceSoftDeleteFilter_limit produceSoftDeleteFilter_skip
         matches_produceSoftDeleteFilter conj_commute, simp add: query_def matches_opt_def)
  then show ?thesis
    by (simp add: find_soft_def findAll_def MemoryRepository_def mem_find_def)
qed

text \<open>
  Three records, one of the two pending ones tombstoned: \<^verbatim>\<open>findAll\<close> returns both
  pending records, \<^verbatim>\<open>find\<close> the one that is not tombstoned.
\<close>

theorem find_is_undeleted_findAll_witness:
  "find_soft (MemoryRepository None)
     (Some \<lparr>where_clause = Some (Cond_other (\<lambda>s. s = ''pending'')), limit = None, skip = None\<rparr>) None
     [\<lparr>getId = 1::nat, deleted = True, deletedOn = Some 3, deletedBy = None, other = ''pending''\<rparr>,
      \<lparr>getId = 2, deleted = False, deletedOn = None, deletedBy = None, other = ''done''\<rparr>,
      \<lparr>getId = 3, deleted = False, deletedOn = None, deletedBy = None, other = ''pending''\<rparr>]
   = (Inr [\<lparr>getId = 3, deleted = False, deletedOn = None, deletedBy = None, other = ''pending''\<rparr>],
      [\<lparr>getId = 1::nat, deleted = True, deletedOn = Some 3, deletedBy = None, other = ''pending''\<rparr>,
       \<lparr>getId = 2, deleted = False, deletedOn = None, deletedBy = None, other = ''done''\<rparr>,
       \<lparr>getId = 3, deleted = False, deletedOn = None, deletedBy = None, other = ''pending''\<rparr>])
   \<and> findAll (MemoryRepository None)
     (Some \<lparr>where_clause = Some (Cond_other (\<lambda>s. s = ''pending'')), limit = None, skip = None\<rparr>) None
     [\<lparr>getId = 1::nat, deleted = True, deletedOn = Some 3, deletedBy = None, other = ''pending''\<rparr>,
      \<lparr>getId = 2, deleted = False, deletedOn = None, deletedBy = None, other = ''done''\<rparr>,
      \<lparr>getId = 3, deleted = False, deletedOn = None, deletedBy = None, other = ''pending''\<rparr>]
   = (Inr [\<lparr>getId = 1::nat, deleted = True, deletedOn = Some 3, deletedBy = None, other = ''pending''\<rparr>,
           \<lparr>getId = 3, deleted = False, deletedOn = None, deletedBy = None, other = ''pending''\<rparr>],
      [\<lparr>getId = 1::nat, deleted = True, deletedOn = Some 3, deletedBy = None, other = ''pending''\<rparr>,
       \<lparr>getId = 2, deleted = False, deletedOn = None, deletedBy = None, other = ''done''\<rparr>,
       \<lparr>getId = 3, deleted = False, deletedOn = None, deletedBy = None, other = ''pending''\<rparr>])"
  using
    find_is_undeleted_findAll
      [where flt = "Some \<lparr>where_clause = Some (Cond_other (\<lambda>s. s = ''pending'')),
                          limit = None, skip = None\<rparr>"
         and getter = None and options = None and this = "MemoryRepository None"
         and st = "[\<lparr>getId = 1::nat, deleted = True, deletedOn = Some 3, deletedBy = None, other = ''pending''\<rparr>,
      \<lparr>getId = 2, deleted = False, deletedOn = None, deletedBy = None, other = ''done''\<rparr>,
      \<lparr>getId = 3, deleted = False, deletedOn = None, deletedBy = None, other = ''pending''\<rparr>]"]
  by (simp add: find_soft_def findAll_def MemoryRepository_def mem_find_def query_def
        paginate_def produceSoftDeleteFilter_def matches_opt_def)

text \<open>
  C1 as stated fails for a filter with a limit: the store limits after the exclusion.
  With \<^verbatim>\<open>{limit: 1}\<close> over a tombstoned record followed by a live one,
  \<^verbatim>\<open>findAll\<close> returns the tombstoned record and \<^verbatim>\<open>find\<close> the live one, which is not
  among \<^verbatim>\<open>findAll\<close>'s results.
\<close>

theorem find_limit_counterexample:
  "find_soft (MemoryRepository None)
     (Some \<lparr>where_clause = None, limit = Some 1, skip = None\<rparr>) None
     [\<lparr>getId = 1::nat, deleted = True, deletedOn = Some 3, deletedBy = None, other = ()\<rparr>,
      \<lparr>getId = 2, deleted = False, deletedOn = None, deletedBy = None, other = ()\<rparr>]
   = (Inr [\<lparr>getId = 2, deleted = False, deletedOn = None, deletedBy = None, other = ()\<rparr>],
      [\<lparr>getId = 1::nat, deleted = True, deletedOn = Some 3, deletedBy = None, other = ()\<rparr>,
       \<lparr>getId = 2, deleted = False, deletedOn = None, deletedBy = None, other = ()\<rparr>])
   \<and> findAll (MemoryRepository None)
     (Some \<lparr>where_clause = None, limit = Some 1, skip = None\<rparr>) None
     [\<lparr>getId = 1::nat, deleted = True, deletedOn = Some 3, deletedBy = None, other = ()\<rparr>,
      \<lparr>getId = 2, deleted = False, deletedOn = None, deletedBy = None, other = ()\<rparr>]
   = (Inr [\<lparr>getId = 1::nat, deleted = True, deletedOn = Some 3, deletedBy = None, other = ()\<rparr>],
      [\<lparr>getId = 1::nat, deleted = True, deletedOn = Some 3, deletedBy = None, other = ()\<rparr>,
       \<lparr>getId = 2, deleted = False, deletedOn = None, deletedBy = None, other = ()\<rparr>])
   \<and> \<lparr>getId = 2::nat, deleted = False, deletedOn = None, deletedBy = None, other = ()\<rparr>
       \<notin> set [\<lparr>getId = 1::nat, deleted = True, deletedOn = Some 3, deletedBy = None, other = ()\<rparr>]"
  by (simp add: find_soft_def findAll_def MemoryRepository_def mem_find_def query_def paginate_def
        produceSoftDeleteFilter_def matches_opt_def)

text \<open>
  C2. When the store holds a tombstoned record \<open>r\<close> with id \<open>i\<close> and no other record
  with that id, \<^verbatim>\<open>findById(i)\<close> rejects with the EntityNotFound error and leaves the
  store as it is, while \<^verbatim>\<open>findByIdIncludeSoftDelete(i)\<close> returns \<open>r\<close>; this holds for
  every filter and every identity accessor.
\<close>

theorem findById_tombstoned:
  assumes "r \<in> set st" and "getId r = i" and "deleted r"
    and "\<forall>e \<in> set st. getId e = i \<longrightarrow> e = r"
  shows "findById (MemoryRepository getter) i flt options st =
           (Inl (HttpErrors_NotFound ErrorKeys_EntityNotFound), st)
       \<and> findByIdIncludeSoftDelete (MemoryRepository getter) i flt options st = (Inr r, st)"
proof -
  have "\<not> matches_opt (where_clause (produceSoftDeleteFilter flt [Cond_id i])) e"
    if "e \<in> set st" for e
  proof (cases "getId e = i")
    case True
    with that assms(4) have "e = r" by blast
    with assms(3) show ?thesis
      by (simp add: matches_produceSoftDeleteFilter)
  next
    case False
    then show ?thesis
      by (simp add: matches_produceSoftDeleteFilter)
  qed
  then have "filter (matches_opt (where_clause (produceSoftDeleteFilter flt [Cond_id i]))) st = []"
    by (simp add: filter_empty_conv)
  then have probe:
    "mem_findOne (Some (produceSoftDeleteFilter flt [Cond_id i])) options st = (Inr None, st)"
    by (simp add: mem_findOne_def query_def paginate_Nil)
  have "r \<in> set (filter (\<lambda>e. getId e = i) st)"
    using assms(1,2) by simp
  then obtain x xs where cons: "filter (\<lambda>e. getId e = i) st = x # xs"
    by (cases "filter (\<lambda>e. getId e = i) st") auto
  then have "x \<in> set (filter (\<lambda>e. getId e = i) st)"
    by simp
  then have "x \<in> set st" and "getId x = i"
    by simp_all
  with assms(4) have "x = r"
    by blast
  with cons have fetch: "mem_findById i flt options st = (Inr r, st)"
    by (simp add: mem_findById_def)
  show ?thesis
    using probe fetch
    by (simp add: findById_def findByIdIncludeSoftDelete_def MemoryRepository_def)
qed

text \<open>
  A tombstoned record 1 beside a live record 2.
\<close>

theorem findById_tombstoned_witness:
  "findById (MemoryRepository None) (1::nat) None None
     [\<lparr>getId = 1, deleted = True, deletedOn = Some 3, deletedBy = None, other = ()\<rparr>,
      \<lparr>getId = 2, deleted = False, deletedOn = None, deletedBy = None, other = ()\<rparr>]
     = (Inl (HttpErrors_NotFound ''EntityNotFound''),
        [\<lparr>getId = 1, deleted = True, deletedOn = Some 3, deletedBy = None, other = ()\<rparr>,
         \<lparr>getId = 2, deleted = False, deletedOn = None, deletedBy = None, other = ()\<rparr>])
   \<and> findByIdIncludeSoftDelete (MemoryRepository None) (1::nat) None None
     [\<lparr>getId = 1, deleted = True, deletedOn = Some 3, deletedBy = None, other = ()\<rparr>,
      \<lparr>getId = 2, deleted = False, deletedOn = None, deletedBy = None, other = ()\<rparr>]
     = (Inr \<lparr>getId = 1, deleted = True, deletedOn = Some 3, deletedBy = None, other = ()\<rparr>,
        [\<lparr>getId = 1, deleted = True, deletedOn = Some 3, deletedBy = None, other = ()\<rparr>,
         \<lparr>getId = 2, deleted = False, deletedOn = None, deletedBy = None, other = ()\<rparr>])"
  using
    findById_tombstoned
      [where r = "\<lparr>getId = 1::nat, deleted = True, deletedOn = Some 3, deletedBy = None, other = ()\<rparr>"
         and i = 1 and getter = None and flt = None and options = None
         and st = "[\<lparr>getId = 1, deleted = True, deletedOn = Some 3, deletedBy = None, other = ()\<rparr>,
      \<lparr>getId = 2, deleted = False, deletedOn = None, deletedBy = None, other = ()\<rparr>]"]
  by (simp add: ErrorKeys_EntityNotFound_def)

text \<open>
  C5. \<^verbatim>\<open>findById\<close> probes with the store's find-one on the filter augmented by the
  rewriter with the id constraint. When the probe yields an entity, the result is the
  store's by-id fetch with the same augmented filter, run on the state the probe left;
  when it yields nothing, the result is the EntityNotFound error; when the probe itself
  rejects, that rejection is the result. The augmented filter's where clause holds of
  exactly the records that satisfy the original where clause, are not tombstoned and
  have the id; its limit and skip are the original ones.
\<close>

theorem findById_probe_then_fetch:
  "(super_findOne this (Some (produceSoftDeleteFilter flt [Cond_id i])) options st = (Inr (Some x), st1)
      \<longrightarrow> findById this i flt options st =
            super_findById this i (Some (produceSoftDeleteFilter flt [Cond_id i])) options st1)
   \<and> (super_findOne this (Some (produceSoftDeleteFilter flt [Cond_id i])) options st = (Inr None, st1)
      \<longrightarrow> findById this i flt options st =
            (Inl (HttpErrors_NotFound ErrorKeys_EntityNotFound), st1))
   \<and> (super_findOne this (Some (produceSoftDeleteFilter flt [Cond_id i])) options st = (Inl err, st1)
      \<longrightarrow> findById this i flt options st = (Inl err, st1))
   \<and> (\<exists>w. where_clause (produceSoftDeleteFilter flt [Cond_id i]) = Some w
          \<and> (\<forall>e. matches w e =
                 (matches_opt (Option.bind flt where_clause) e \<and> \<not> deleted e \<and> getId e = i)))
   \<and> limit (produceSoftDeleteFilter flt [Cond_id i]) = Option.bind flt limit
   \<and> skip (produceSoftDeleteFilter flt [Cond_id i]) = Option.bind flt skip"
  by (auto simp: findById_def Let_def produceSoftDeleteFilter_def matches_opt_def
           split: option.splits)

text \<open>
  On the reference store: a live record 1 is fetched, a tombstoned record 1 is not
  found.
\<close>

theorem findById_probe_then_fetch_witness:
  "findById (MemoryRepository None) (1::nat) None None
     [\<lparr>getId = 1, deleted = False, deletedOn = None, deletedBy = None, other = ()\<rparr>]
     = (Inr \<lparr>getId = 1, deleted = False, deletedOn = None, deletedBy = None, other = ()\<rparr>,
        [\<lparr>getId = 1, deleted = False, deletedOn = None, deletedBy = None, other = ()\<rparr>])
   \<and> findById (MemoryRepository None) (1::nat) None None
     [\<lparr>getId = 1, deleted = True, deletedOn = Some 3, deletedBy = None, other = ()\<rparr>]
     = (Inl (HttpErrors_NotFound ''EntityNotFound''),
        [\<lparr>getId = 1, deleted = True, deletedOn = Some 3, deletedBy = None, other = ()\<rparr>])"
  using
    findById_probe_then_fetch
      [of "MemoryRepository None" None "1::nat" None
          "[\<lparr>getId = 1, deleted = False, deletedOn = None, deletedBy = None, other = ()\<rparr>]"
          "\<lparr>getId = 1, deleted = False, deletedOn = None, deletedBy = None, other = ()\<rparr>"
          "[\<lparr>getId = 1, deleted = False, deletedOn = None, deletedBy = None, other = ()\<rparr>]"
          "Rejected []"]
    findById_probe_then_fetch
      [of "MemoryRepository None" None "1::nat" None
          "[\<lparr>getId = 1, deleted = True, deletedOn = Some 3, deletedBy = None, other = ()\<rparr>]"
          "\<lparr>getId = 1, deleted = True, deletedOn = Some 3, deletedBy = None, other = ()\<rparr>"
          "[\<lparr>getId = 1, deleted = True, deletedOn = Some 3, deletedBy = None, other = ()\<rparr>]"
          "Rejected []"]
  by (simp add: MemoryRepository_def mem_findOne_def mem_findById_def query_def paginate_def
        produceSoftDeleteFilter_def matches_opt_def ErrorKeys_EntityNotFound_def)

subsection \<open>Soft deletes\<close>

text \<open>
  C3. \<^verbatim>\<open>deleteAll\<close> builds one patch, with the one timestamp \<open>now\<close> and the one
  resolved actor, and applies it through this class's \<^verbatim>\<open>updateAll\<close>, which hands the
  store the where clause augmented by the rewriter; the augmented clause holds of the
  records that satisfy the original clause and are not tombstoned. On the reference
  store the records that satisfy the where clause and are not tombstoned get the
  patch, every other record (an already tombstoned match among them) stays as it is,
  and the count returned is the number of records patched.
\<close>

theorem deleteAll_tombstones_live_matches:
  assumes "getUserId this None = Inr uid"
    and "getUserId (MemoryRepository getter
                   :: ('id, 'm, ('id, 'm) SoftDeleteEntity list) Repository) None = Inr uid'"
  shows "deleteAll this now whr options s =
           updateAll this
             \<lparr>set_deleted = Some True, set_deletedOn = Some now, set_deletedBy = uid,
              set_other = id\<rparr> whr options s
       \<and> updateAll this data whr options s =
           super_updateAll this data (Some (produceSoftDeleteWhere whr)) options s
       \<and> (\<forall>e. matches (produceSoftDeleteWhere whr) e = (matches_opt whr e \<and> \<not> deleted e))
       \<and> deleteAll (MemoryRepository getter) now whr options (st :: ('id, 'm) SoftDeleteEntity list) =
           (Inr (length (filter (\<lambda>e. matches_opt whr e \<and> \<not> deleted e) st)),
            map (\<lambda>e. if matches_opt whr e \<and> \<not> deleted e
                      then e\<lparr>deleted := True, deletedOn := Some now,
                             deletedBy := (case uid' of None \<Rightarrow> deletedBy e | Some u \<Rightarrow> Some u)\<rparr>
                      else e) st)"
proof -
  have "deleteAll (MemoryRepository getter) now whr options st =
          mem_updateAll
            \<lparr>set_deleted = Some True, set_deletedOn = Some now, set_deletedBy = uid',
             set_other = id\<rparr>
            (Some (produceSoftDeleteWhere whr)) options st"
    by (simp add: deleteAll_resolved [OF assms(2)])
  then have mem: "deleteAll (MemoryRepository getter) now whr options st =
           (Inr (length (filter (\<lambda>e. matches_opt whr e \<and> \<not> deleted e) st)),
            map (\<lambda>e. if matches_opt whr e \<and> \<not> deleted e
                      then e\<lparr>deleted := True, deletedOn := Some now,
                             deletedBy := (case uid' of None \<Rightarrow> deletedBy e | Some u \<Rightarrow> Some u)\<rparr>
                      else e) st)"
    by (simp add: mem_updateAll_def matches_produceSoftDeleteWhere apply_data_def)
  have "\<forall>e. matches (produceSoftDeleteWhere whr) e = (matches_opt whr e \<and> \<not> deleted e)"
    by (simp add: produceSoftDeleteWhere_def matches_opt_def split: option.splits)
  with mem assms(1) show ?thesis
    by (simp add: deleteAll_def updateAll_def)
qed

text \<open>
  \<^verbatim>\<open>deleteAll({status: "pending"})\<close> over three live and two tombstoned pending
  records and one record of another status: the count is 3, the three live pending
  records are tombstoned at time 9 by \<^verbatim>\<open>u1\<close>, the other three are untouched.
\<close>

theorem deleteAll_tombstones_live_matches_witness:
  "deleteAll (MemoryRepository (Some (\<lambda>_. Inr (Some \<lparr>user_id = JString ''u1''\<rparr>)))) 9
     (Some (Cond_other (\<lambda>status. status = ''pending''))) None
     [\<lparr>getId = 1::nat, deleted = False, deletedOn = None, deletedBy = None, other = ''pending''\<rparr>,
      \<lparr>getId = 2, deleted = True, deletedOn = Some 3, deletedBy = Some ''u0'', other = ''pending''\<rparr>,
      \<lparr>getId = 3, deleted = False, deletedOn = None, deletedBy = None, other = ''pending''\<rparr>,
      \<lparr>getId = 4, deleted = True, deletedOn = Some 4, deletedBy = None, other = ''pending''\<rparr>,
      \<lparr>getId = 5, deleted = False, deletedOn = None, deletedBy = None, other = ''pending''\<rparr>,
      \<lparr>getId = 6, deleted = False, deletedOn = None, deletedBy = None, other = ''done''\<rparr>]
   = (Inr 3,
     [\<lparr>getId = 1::nat, deleted = True, deletedOn = Some 9, deletedBy = Some ''u1'', other = ''pending''\<rparr>,
      \<lparr>getId = 2, deleted = True, deletedOn = Some 3, deletedBy = Some ''u0'', other = ''pending''\<rparr>,
      \<lparr>getId = 3, deleted = True, deletedOn = Some 9, deletedBy = Some ''u1'', other = ''pending''\<rparr>,
      \<lparr>getId = 4, deleted = True, deletedOn = Some 4, deletedBy = None, other = ''pending''\<rparr>,
      \<lparr>getId = 5, deleted = True, deletedOn = Some 9, deletedBy = Some ''u1'', other = ''pending''\<rparr>,
      \<lparr>getId = 6, deleted = False, deletedOn = None, deletedBy = None, other = ''done''\<rparr>])"
  using
    deleteAll_tombstones_live_matches
      [where this = "MemoryRepository (Some (\<lambda>_. Inr (Some \<lparr>user_id = JString ''u1''\<rparr>)))"
         and getter = "Some (\<lambda>_. Inr (Some \<lparr>user_id = JString ''u1''\<rparr>))"
         and uid = "Some ''u1''" and uid' = "Some ''u1''" and now = 9 and options = None
         and whr = "Some (Cond_other (\<lambda>status. status = ''pending''))"
         and data = "\<lparr>set_deleted = None, set_deletedOn = None, set_deletedBy = None, set_other = id\<rparr>"
         and s = "[]"
         and st = "[\<lparr>getId = 1::nat, deleted = False, deletedOn = None, deletedBy = None, other = ''pending''\<rparr>,
      \<lparr>getId = 2, deleted = True, deletedOn = Some 3, deletedBy = Some ''u0'', other = ''pending''\<rparr>,
      \<lparr>getId = 3, deleted = False, deletedOn = None, deletedBy = None, other = ''pending''\<rparr>,
      \<lparr>getId = 4, deleted = True, deletedOn = Some 4, deletedBy = None, other = ''pending''\<rparr>,
      \<lparr>getId = 5, deleted = False, deletedOn = None, deletedBy = None, other = ''pending''\<rparr>,
      \<lparr>getId = 6, deleted = False, deletedOn = None, deletedBy = None, other = ''done''\<rparr>]"]
  by (simp add: getUserId_def MemoryRepository_def matches_opt_def)

text \<open>
  C4. When the actor resolves to \<open>uid\<close>, \<^verbatim>\<open>delete\<close> leaves the caller's entity with
  \<open>deleted\<close> true, \<open>deletedOn\<close> the current time and \<open>deletedBy\<close> the actor, and with
  its id and every other field unchanged; its outcome and the store after it are those of
  the store's update of that entity. The store's physical delete operations play no
  part: replacing them changes nothing of what \<^verbatim>\<open>delete\<close> does.
\<close>

theorem delete_marks_and_updates:
  assumes "getUserId this None = Inr uid"
    and "entity' = entity\<lparr>deleted := True, deletedOn := Some now, deletedBy := uid\<rparr>"
  shows "delete this now entity options st = (super_update this entity' options st, entity')
       \<and> deleted entity' \<and> deletedOn entity' = Some now \<and> deletedBy entity' = uid
       \<and> getId entity' = getId entity \<and> other entity' = other entity
       \<and> delete (this\<lparr>super_deleteById := hardById, super_deleteAll := hardAll\<rparr>) now entity options st =
           delete this now entity options st"
  using assms
  by (simp add: delete_resolved getUserId_hard_delete_irrelevant)

text \<open>
  The identity accessor yields \<^verbatim>\<open>{id: "u1"}\<close>: after \<^verbatim>\<open>delete(entity)\<close> the entity's
  \<open>deletedBy\<close> is \<^verbatim>\<open>"u1"\<close>, and the reference store still holds both records.
\<close>

theorem delete_marks_and_updates_witness:
  "delete (MemoryRepository (Some (\<lambda>_. Inr (Some \<lparr>user_id = JString ''u1''\<rparr>)))) 9
      \<lparr>getId = 1::nat, deleted = False, deletedOn = None, deletedBy = None, other = ''a''\<rparr> None
      [\<lparr>getId = 1, deleted = False, deletedOn = None, deletedBy = None, other = ''a''\<rparr>,
       \<lparr>getId = 2, deleted = False, deletedOn = None, deletedBy = None, other = ''b''\<rparr>]
   = ((Inr (),
       [\<lparr>getId = 1, deleted = True, deletedOn = Some 9, deletedBy = Some ''u1'', other = ''a''\<rparr>,
        \<lparr>getId = 2, deleted = False, deletedOn = None, deletedBy = None, other = ''b''\<rparr>]),
      \<lparr>getId = 1, deleted = True, deletedOn = Some 9, deletedBy = Some ''u1'', other = ''a''\<rparr>)"
  using
    delete_marks_and_updates
      [where this = "MemoryRepository (Some (\<lambda>_. Inr (Some \<lparr>user_id = JString ''u1''\<rparr>)))"
         and uid = "Some ''u1''"
         and entity = "\<lparr>getId = 1::nat, deleted = False, deletedOn = None, deletedBy = None, other = ''a''\<rparr>"
         and entity' = "\<lparr>getId = 1::nat, deleted = True, deletedOn = Some 9, deletedBy = Some ''u1'', other = ''a''\<rparr>"
         and now = 9 and options = None
         and st = "[\<lparr>getId = 1, deleted = False, deletedOn = None, deletedBy = None, other = ''a''\<rparr>,
            \<lparr>getId = 2, deleted = False, deletedOn = None, deletedBy = None, other = ''b''\<rparr>]"]
  by (simp add: MemoryRepository_def getUserId_def mem_update_def mem_updateById_def
        entity_data_def apply_data_def)

text \<open>
  C6. The invariant: a record is \<open>deleted\<close> exactly when its \<open>deletedOn\<close> is set. Each
  soft-delete operation sets \<open>deleted\<close> to true and \<open>deletedOn\<close> to the current time
  together. \<^verbatim>\<open>delete\<close> sets both on the caller's entity, whatever the store and the
  identity accessor do, and when the actor resolves it hands that entity to the store's
  update. \<^verbatim>\<open>deleteAll\<close> and \<^verbatim>\<open>deleteById\<close> hand the store one patch that carries both,
  and a record the patch is applied to is \<open>deleted\<close> with \<open>deletedOn\<close> the current time
  and satisfies the invariant for every value of \<open>deletedBy\<close>, \<^verbatim>\<open>undefined\<close> included.
  On the reference store, and on the store whose update operations dispatch to this
  class, each of \<^verbatim>\<open>delete\<close>, \<^verbatim>\<open>deleteAll\<close> and \<^verbatim>\<open>deleteById\<close> takes a store whose
  records all satisfy the invariant to one whose records all do, whatever the identity
  accessor does.
\<close>

theorem soft_delete_preserves_tombstone_inv:
  assumes "list_all tombstone_inv (st :: ('id, 'm) SoftDeleteEntity list)"
  shows "deleted (snd (delete this now entity options s))
       \<and> deletedOn (snd (delete this now entity options s)) = Some now
       \<and> tombstone_inv (snd (delete this now entity options s))
       \<and> (getUserId this None = Inr uid \<longrightarrow>
            delete this now entity options s =
              (super_update this
                 (entity\<lparr>deleted := True, deletedOn := Some now, deletedBy := uid\<rparr>) options s,
               entity\<lparr>deleted := True, deletedOn := Some now, deletedBy := uid\<rparr>)
            \<and> deleteAll this now whr options s =
                super_updateAll this
                  \<lparr>set_deleted = Some True, set_deletedOn = Some now, set_deletedBy = uid,
                   set_other = id\<rparr>
                  (Some (produceSoftDeleteWhere whr)) options s
            \<and> deleteById this now i options s =
                super_updateById this i
                  \<lparr>set_deleted = Some True, set_deletedOn = Some now, set_deletedBy = uid,
                   set_other = id\<rparr>
                  options s)
       \<and> deleted
           (apply_data \<lparr>set_deleted = Some True, set_deletedOn = Some now, set_deletedBy = uid,
                        set_other = id\<rparr> e)
       \<and> deletedOn
           (apply_data \<lparr>set_deleted = Some True, set_deletedOn = Some now, set_deletedBy = uid,
                        set_other = id\<rparr> e) = Some now
       \<and> tombstone_inv
           (apply_data \<lparr>set_deleted = Some True, set_deletedOn = Some now, set_deletedBy = uid,
                        set_other = id\<rparr> e)
       \<and> list_all tombstone_inv (snd (fst (delete (MemoryRepository getter) now entity' options st)))
       \<and> list_all tombstone_inv (snd (deleteAll (MemoryRepository getter) now whr' options st))
       \<and> list_all tombstone_inv (snd (deleteById (MemoryRepository getter) now i' options st))
       \<and> list_all tombstone_inv (snd (fst (delete (InheritingRepository getter) now entity' options st)))
       \<and> list_all tombstone_inv (snd (deleteAll (InheritingRepository getter) now whr' options st))
       \<and> list_all tombstone_inv (snd (deleteById (InheritingRepository getter) now i' options st))"
proof -
  let ?M = "MemoryRepository getter :: ('id, 'm, ('id, 'm) SoftDeleteEntity list) Repository"
  let ?I = "InheritingRepository getter :: ('id, 'm, ('id, 'm) SoftDeleteEntity list) Repository"
  have entity:
    "deleted (snd (delete this now entity options s))
     \<and> deletedOn (snd (delete this now entity options s)) = Some now
     \<and> tombstone_inv (snd (delete this now entity options s))"
    by (cases "getUserId this None") (simp_all add: delete_def Let_def tombstone_inv_def)
  have patch:
    "getUserId this None = Inr uid \<longrightarrow>
       delete this now entity options s =
         (super_update this
            (entity\<lparr>deleted := True, deletedOn := Some now, deletedBy := uid\<rparr>) options s,
          entity\<lparr>deleted := True, deletedOn := Some now, deletedBy := uid\<rparr>)
       \<and> deleteAll this now whr options s =
           super_updateAll this
             \<lparr>set_deleted = Some True, set_deletedOn = Some now, set_deletedBy = uid,
              set_other = id\<rparr>
             (Some (produceSoftDeleteWhere whr)) options s
       \<and> deleteById this now i options s =
           super_updateById this i
             \<lparr>set_deleted = Some True, set_deletedOn = Some now, set_deletedBy = uid,
              set_other = id\<rparr>
             options s"
    by (simp add: delete_resolved deleteAll_resolved deleteById_resolved)
  have applied:
    "deleted
       (apply_data \<lparr>set_deleted = Some True, set_deletedOn = Some now, set_deletedBy = uid,
                    set_other = id\<rparr> e)
     \<and> deletedOn
         (apply_data \<lparr>set_deleted = Some True, set_deletedOn = Some now, set_deletedBy = uid,
                      set_other = id\<rparr> e) = Some now
     \<and> tombstone_inv
         (apply_data \<lparr>set_deleted = Some True, set_deletedOn = Some now, set_deletedBy = uid,
                      set_other = id\<rparr> e)"
    by (simp add: apply_data_def tombstone_inv_def)
  have m1: "list_all tombstone_inv (snd (fst (delete ?M now entity' options st)))"
    using assms
    by (cases "getUserId ?M None")
      (simp_all add: delete_def Let_def mem_update_def
         tombstone_inv_mem_updateById [of st _ now] entity_data_def)
  have m2: "list_all tombstone_inv (snd (deleteAll ?M now whr' options st))"
    using assms
    by (cases "getUserId ?M None")
      (simp_all add: deleteAll_def updateAll_def tombstone_inv_mem_updateAll [of st _ now])
  have m3: "list_all tombstone_inv (snd (deleteById ?M now i' options st))"
    using assms
    by (cases "getUserId ?M None")
      (simp_all add: deleteById_def tombstone_inv_mem_updateById [of st _ now])
  have i1: "list_all tombstone_inv (snd (fst (delete ?I now entity' options st)))"
    using assms
    by (cases "getUserId ?I None")
      (simp_all add: delete_def Let_def dispatch_update_def
         tombstone_inv_dispatch_updateById [of st _ now] entity_data_def)
  have i2: "list_all tombstone_inv (snd (deleteAll ?I now whr' options st))"
    using assms
    by (cases "getUserId ?I None")
      (simp_all add: deleteAll_def updateAll_def tombstone_inv_mem_updateAll [of st _ now])
  have i3: "list_all tombstone_inv (snd (deleteById ?I now i' options st))"
    using assms
    by (cases "getUserId ?I None")
      (simp_all add: deleteById_def tombstone_inv_dispatch_updateById [of st _ now])
  show ?thesis
    using entity patch applied m1 m2 m3 i1 i2 i3 by blast
qed

text \<open>
  \<^verbatim>\<open>delete\<close> of record 2, \<^verbatim>\<open>deleteAll()\<close> and \<^verbatim>\<open>deleteById(2)\<close>, each at time 5
  with no identity accessor, on a store that satisfies the invariant: each leaves
  record 2 \<open>deleted\<close> with \<open>deletedOn\<close> 5 and record 1 as it was.
\<close>

theorem soft_delete_preserves_tombstone_inv_witness:
  "list_all tombstone_inv
     [\<lparr>getId = 1::nat, deleted = True, deletedOn = Some 3, deletedBy = None, other = ()\<rparr>,
      \<lparr>getId = 2, deleted = False, deletedOn = None, deletedBy = None, other = ()\<rparr>]
   \<and> delete (MemoryRepository None) 5
       \<lparr>getId = 2::nat, deleted = False, deletedOn = None, deletedBy = None, other = ()\<rparr> None
       [\<lparr>getId = 1, deleted = True, deletedOn = Some 3, deletedBy = None, other = ()\<rparr>,
        \<lparr>getId = 2, deleted = False, deletedOn = None, deletedBy = None, other = ()\<rparr>]
     = ((Inr (),
         [\<lparr>getId = 1, deleted = True, deletedOn = Some 3, deletedBy = None, other = ()\<rparr>,
          \<lparr>getId = 2, deleted = True, deletedOn = Some 5, deletedBy = None, other = ()\<rparr>]),
        \<lparr>getId = 2, deleted = True, deletedOn = Some 5, deletedBy = None, other = ()\<rparr>)
   \<and> deleteAll (MemoryRepository None) 5 None None
       [\<lparr>getId = 1::nat, deleted = True, deletedOn = Some 3, deletedBy = None, other = ()\<rparr>,
        \<lparr>getId = 2, deleted = False, deletedOn = None, deletedBy = None, other = ()\<rparr>]
     = (Inr 1,
        [\<lparr>getId = 1, deleted = True, deletedOn = Some 3, deletedBy = None, other = ()\<rparr>,
         \<lparr>getId = 2, deleted = True, deletedOn = Some 5, deletedBy = None, other = ()\<rparr>])
   \<and> deleteById (MemoryRepository None) 5 (2::nat) None
       [\<lparr>getId = 1, deleted = True, deletedOn = Some 3, deletedBy = None, other = ()\<rparr>,
        \<lparr>getId = 2, deleted = False, deletedOn = None, deletedBy = None, other = ()\<rparr>]
     = (Inr (),
        [\<lparr>getId = 1, deleted = True, deletedOn = Some 3, deletedBy = None, other = ()\<rparr>,
         \<lparr>getId = 2, deleted = True, deletedOn = Some 5, deletedBy = None, other = ()\<rparr>])
   \<and> list_all tombstone_inv
        [\<lparr>getId = 1::nat, deleted = True, deletedOn = Some 3, deletedBy = None, other = ()\<rparr>,
         \<lparr>getId = 2, deleted = True, deletedOn = Some 5, deletedBy = None, other = ()\<rparr>]"
  using
    soft_delete_preserves_tombstone_inv
      [where st = "[\<lparr>getId = 1::nat, deleted = True, deletedOn = Some 3, deletedBy = None, other = ()\<rparr>,
         \<lparr>getId = 2, deleted = False, deletedOn = None, deletedBy = None, other = ()\<rparr>]"
         and s = "[\<lparr>getId = 1::nat, deleted = True, deletedOn = Some 3, deletedBy = None, other = ()\<rparr>,
         \<lparr>getId = 2, deleted = False, deletedOn = None, deletedBy = None, other = ()\<rparr>]"
         and getter = None and now = 5 and i = 2 and i' = 2 and options = None
         and whr = None and whr' = None and this = "MemoryRepository None"
         and entity = "\<lparr>getId = 2::nat, deleted = False, deletedOn = None, deletedBy = None, other = ()\<rparr>"
         and entity' = "\<lparr>getId = 2::nat, deleted = False, deletedOn = None, deletedBy = None, other = ()\<rparr>"
         and uid = None
         and e = "\<lparr>getId = 2::nat, deleted = False, deletedOn = None, deletedBy = None, other = ()\<rparr>"]
  by (simp add: tombstone_inv_def delete_def Let_def deleteAll_def updateAll_def deleteById_def
        getUserId_def mem_update_def mem_updateById_def mem_updateAll_def entity_data_def
        apply_data_def produceSoftDeleteWhere_def matches_opt_def dispatch_update_def
        dispatch_updateById_def)

text \<open>
  C7. When the identity accessor is absent, or yields no user, or yields a user whose id
  is missing (or falsy), resolving the actor returns \<^verbatim>\<open>undefined\<close> without rejecting,
  and each soft-delete operation goes on to its store call with \<open>deletedBy\<close>
  \<^verbatim>\<open>undefined\<close>. In particular \<^verbatim>\<open>deleteById(i)\<close> with no identity accessor, on the
  reference store holding a live record \<open>i\<close>, completes and leaves the record
  tombstoned with \<open>deletedBy\<close> \<^verbatim>\<open>undefined\<close>.
\<close>

theorem no_actor_never_blocks:
  assumes "getCurrentUser this = None
         \<or> (\<exists>getter. getCurrentUser this = Some getter
               \<and> (getter () = Inr None
                  \<or> (\<exists>u. getter () = Inr (Some u) \<and> \<not> truthy (user_id u))))"
  shows "getUserId this None = Inr None
       \<and> delete this now entity options st =
           (super_update this (entity\<lparr>deleted := True, deletedOn := Some now, deletedBy := None\<rparr>)
              options st,
            entity\<lparr>deleted := True, deletedOn := Some now, deletedBy := None\<rparr>)
       \<and> deleteAll this now whr options st =
           super_updateAll this
             \<lparr>set_deleted = Some True, set_deletedOn = Some now, set_deletedBy = None,
              set_other = id\<rparr>
             (Some (produceSoftDeleteWhere whr)) options st
       \<and> deleteById this now i options st =
           super_updateById this i
             \<lparr>set_deleted = Some True, set_deletedOn = Some now, set_deletedBy = None,
              set_other = id\<rparr>
             options st
       \<and> deleteById (MemoryRepository None) now i options
           [\<lparr>getId = i, deleted = False, deletedOn = None, deletedBy = None, other = m\<rparr>]
           = (Inr (),
              [\<lparr>getId = i, deleted = True, deletedOn = Some now, deletedBy = None, other = m\<rparr>])"
proof -
  have none: "getUserId this None = Inr None"
    using assms by (auto simp: getUserId_def)
  have scenario:
    "deleteById (MemoryRepository None) now i options
       [\<lparr>getId = i, deleted = False, deletedOn = None, deletedBy = None, other = m\<rparr>]
     = (Inr (),
        [\<lparr>getId = i, deleted = True, deletedOn = Some now, deletedBy = None, other = m\<rparr>])"
    by (simp add: deleteById_def getUserId_def mem_updateById_def apply_data_def)
  show ?thesis
    using none scenario
    by (simp add: delete_resolved deleteAll_resolved deleteById_resolved)
qed

text \<open>
  The three cases: no accessor (\<^verbatim>\<open>deleteById(1)\<close> at time 5), an accessor that yields
  no user, an accessor that yields a user without an id.
\<close>

theorem no_actor_never_blocks_witness:
  "deleteById (MemoryRepository None) 5 (1::nat) None
     [\<lparr>getId = 1, deleted = False, deletedOn = None, deletedBy = None, other = ()\<rparr>]
   = (Inr (), [\<lparr>getId = 1, deleted = True, deletedOn = Some 5, deletedBy = None, other = ()\<rparr>])
   \<and> snd (delete (MemoryRepository (Some (\<lambda>_. Inr None))) 5
        \<lparr>getId = 1::nat, deleted = False, deletedOn = None, deletedBy = Some ''old'', other = ()\<rparr>
        None [])
     = \<lparr>getId = 1, deleted = True, deletedOn = Some 5, deletedBy = None, other = ()\<rparr>
   \<and> getUserId (MemoryRepository (Some (\<lambda>_. Inr (Some \<lparr>user_id = JUndefined\<rparr>)))
               :: (nat, unit, (nat, unit) SoftDeleteEntity list) Repository) None
     = Inr None"
  using
    no_actor_never_blocks
      [where this = "MemoryRepository None" and now = 5 and i = "1::nat" and options = None
         and m = "()" and whr = None and st = "[]"
         and entity = "\<lparr>getId = 1::nat, deleted = False, deletedOn = None, deletedBy = Some ''old'',
                         other = ()\<rparr>"]
    no_actor_never_blocks
      [where this = "MemoryRepository (Some (\<lambda>_. Inr None))" and now = 5 and i = "1::nat"
         and options = None and m = "()" and whr = None and st = "[]"
         and entity = "\<lparr>getId = 1::nat, deleted = False, deletedOn = None, deletedBy = Some ''old'',
                         other = ()\<rparr>"]
    no_actor_never_blocks
      [where this = "MemoryRepository (Some (\<lambda>_. Inr (Some \<lparr>user_id = JUndefined\<rparr>)))"
         and now = 5 and i = "1::nat" and options = None and m = "()" and whr = None and st = "[]"
         and entity = "\<lparr>getId = 1::nat, deleted = False, deletedOn = None, deletedBy = Some ''old'',
                         other = ()\<rparr>"]
  by (simp add: mem_update_def mem_updateById_def)

text \<open>
  C8 fails on the code. \<^verbatim>\<open>getUserId\<close> does fall back to the options bag's
  \<^verbatim>\<open>currentUser\<close> when it is given the options, but \<^verbatim>\<open>delete\<close>, \<^verbatim>\<open>deleteAll\<close> and
  \<^verbatim>\<open>deleteById\<close> call it with no argument. With an accessor that yields no user and
  options that carry the user \<^verbatim>\<open>{id: "u2"}\<close>, \<^verbatim>\<open>getUserId(options)\<close> is \<^verbatim>\<open>"u2"\<close>,
  yet all three operations leave \<open>deletedBy\<close> \<^verbatim>\<open>undefined\<close>.
\<close>

theorem delete_ignores_options_currentUser:
  "getUserId (MemoryRepository (Some (\<lambda>_. Inr None))
                :: (nat, unit, (nat, unit) SoftDeleteEntity list) Repository)
      (Some \<lparr>currentUser = Some \<lparr>user_id = JString ''u2''\<rparr>\<rparr>)
     = Inr (Some ''u2'')
   \<and> delete (MemoryRepository (Some (\<lambda>_. Inr None))) 5
       \<lparr>getId = 1::nat, deleted = False, deletedOn = None, deletedBy = None, other = ()\<rparr>
       (Some \<lparr>currentUser = Some \<lparr>user_id = JString ''u2''\<rparr>\<rparr>)
       [\<lparr>getId = 1, deleted = False, deletedOn = None, deletedBy = None, other = ()\<rparr>]
     = ((Inr (), [\<lparr>getId = 1, deleted = True, deletedOn = Some 5, deletedBy = None, other = ()\<rparr>]),
        \<lparr>getId = 1, deleted = True, deletedOn = Some 5, deletedBy = None, other = ()\<rparr>)
   \<and> deleteAll (MemoryRepository (Some (\<lambda>_. Inr None))) 5 None
       (Some \<lparr>currentUser = Some \<lparr>user_id = JString ''u2''\<rparr>\<rparr>)
       [\<lparr>getId = 1::nat, deleted = False, deletedOn = None, deletedBy = None, other = ()\<rparr>]
     = (Inr 1, [\<lparr>getId = 1, deleted = True, deletedOn = Some 5, deletedBy = None, other = ()\<rparr>])
   \<and> deleteById (MemoryRepository (Some (\<lambda>_. Inr None))) 5 (1::nat)
       (Some \<lparr>currentUser = Some \<lparr>user_id = JString ''u2''\<rparr>\<rparr>)
       [\<lparr>getId = 1, deleted = False, deletedOn = None, deletedBy = None, other = ()\<rparr>]
     = (Inr (), [\<lparr>getId = 1, deleted = True, deletedOn = Some 5, deletedBy = None, other = ()\<rparr>])"
  by (simp add: getUserId_def delete_def Let_def deleteAll_def updateAll_def deleteById_def
        mem_update_def mem_updateById_def mem_updateAll_def entity_data_def apply_data_def
        produceSoftDeleteWhere_def matches_opt_def)

text \<open>
  C9, as amended. After \<^verbatim>\<open>delete(e)\<close> and after a second \<^verbatim>\<open>delete(e)\<close> on the same
  entity object, the object's \<open>deleted\<close> is true, whatever the store and the identity
  accessor did in either call; after the second call the object's \<open>deletedOn\<close> is the
  time of the second call and, when the actor resolves, its \<open>deletedBy\<close> is the actor of
  the second call. Each call whose actor resolves has the outcome of the store's update
  of the entity it stamped. On the store whose update operations dispatch to this
  class, with a live record of the entity's id stored, the first call tombstones that
  record, and the second call rejects with the store's not-found error and leaves the
  stored record with the first call's \<open>deletedOn\<close> and \<open>deletedBy\<close>. (\<open>this'\<close> is the
  repository at the second call: its accessor may yield another user by then.)
\<close>

theorem delete_twice:
  assumes "first = delete this now entity options st"
    and "second = delete this' now' (snd first) options' (snd (fst first))"
    and "stamped =
           map (\<lambda>e. if getId e = getId entity \<and> \<not> deleted e
                     then e\<lparr>deleted := True, deletedOn := Some now,
                            deletedBy := (case a of None \<Rightarrow> deletedBy e | Some u \<Rightarrow> Some u),
                            other := other entity\<rparr>
                     else e) (stored :: ('id, 'm) SoftDeleteEntity list)"
  shows "deleted (snd first) \<and> deleted (snd second)
       \<and> deletedOn (snd second) = Some now'
       \<and> getId (snd second) = getId entity \<and> other (snd second) = other entity
       \<and> (getUserId this None = Inr uid \<longrightarrow>
            first =
              (super_update this
                 (entity\<lparr>deleted := True, deletedOn := Some now, deletedBy := uid\<rparr>) options st,
               entity\<lparr>deleted := True, deletedOn := Some now, deletedBy := uid\<rparr>))
       \<and> (getUserId this' None = Inr uid' \<longrightarrow>
            second =
              (super_update this'
                 (entity\<lparr>deleted := True, deletedOn := Some now', deletedBy := uid'\<rparr>) options'
                 (snd (fst first)),
               entity\<lparr>deleted := True, deletedOn := Some now', deletedBy := uid'\<rparr>))
       \<and> (list_ex (\<lambda>e. getId e = getId entity \<and> \<not> deleted e) stored
            \<and> getUserId (InheritingRepository getter
                  :: ('id, 'm, ('id, 'm) SoftDeleteEntity list) Repository) None = Inr a
            \<and> getUserId (InheritingRepository getter'
                  :: ('id, 'm, ('id, 'm) SoftDeleteEntity list) Repository) None = Inr a'
          \<longrightarrow>
            delete (InheritingRepository getter) now entity options stored =
              ((Inr (), stamped),
               entity\<lparr>deleted := True, deletedOn := Some now, deletedBy := a\<rparr>)
            \<and> delete (InheritingRepository getter') now'
                 (entity\<lparr>deleted := True, deletedOn := Some now, deletedBy := a\<rparr>) options' stamped =
              ((Inl EntityNotFoundError, stamped),
               entity\<lparr>deleted := True, deletedOn := Some now', deletedBy := a'\<rparr>))"
proof -
  have object:
    "deleted (snd first) \<and> deleted (snd second) \<and> deletedOn (snd second) = Some now'
     \<and> getId (snd second) = getId entity \<and> other (snd second) = other entity"
    using assms(1,2) by (auto simp: delete_def Let_def split: sum.splits)
  have one:
    "getUserId this None = Inr uid \<longrightarrow>
       first =
         (super_update this
            (entity\<lparr>deleted := True, deletedOn := Some now, deletedBy := uid\<rparr>) options st,
          entity\<lparr>deleted := True, deletedOn := Some now, deletedBy := uid\<rparr>)"
    using assms(1) by (simp add: delete_resolved)
  have two:
    "getUserId this' None = Inr uid' \<longrightarrow>
       second =
         (super_update this'
            (entity\<lparr>deleted := True, deletedOn := Some now', deletedBy := uid'\<rparr>) options'
            (snd (fst first)),
          entity\<lparr>deleted := True, deletedOn := Some now', deletedBy := uid'\<rparr>)"
  proof
    assume r: "getUserId this' None = Inr uid'"
    have "(snd first)\<lparr>deleted := True, deletedOn := Some now', deletedBy := uid'\<rparr> =
          entity\<lparr>deleted := True, deletedOn := Some now', deletedBy := uid'\<rparr>"
      using assms(1) by (auto simp: delete_def Let_def split: sum.splits)
    with r assms(2) show "second =
         (super_update this'
            (entity\<lparr>deleted := True, deletedOn := Some now', deletedBy := uid'\<rparr>) options'
            (snd (fst first)),
          entity\<lparr>deleted := True, deletedOn := Some now', deletedBy := uid'\<rparr>)"
      by (simp add: delete_resolved)
  qed
  have stored:
    "delete (InheritingRepository getter) now entity options stored =
       ((Inr (), stamped), entity\<lparr>deleted := True, deletedOn := Some now, deletedBy := a\<rparr>)
     \<and> delete (InheritingRepository getter') now'
          (entity\<lparr>deleted := True, deletedOn := Some now, deletedBy := a\<rparr>) options' stamped =
       ((Inl EntityNotFoundError, stamped),
        entity\<lparr>deleted := True, deletedOn := Some now', deletedBy := a'\<rparr>)"
    if live: "list_ex (\<lambda>e. getId e = getId entity \<and> \<not> deleted e) stored"
      and r: "getUserId (InheritingRepository getter
                :: ('id, 'm, ('id, 'm) SoftDeleteEntity list) Repository) None = Inr a"
      and r': "getUserId (InheritingRepository getter'
                :: ('id, 'm, ('id, 'm) SoftDeleteEntity list) Repository) None = Inr a'"
  proof -
    have "\<not> list_ex (\<lambda>e. getId e = getId entity \<and> \<not> deleted e) stamped"
      by (auto simp: assms(3) list_ex_iff)
    then show ?thesis
      using live
      by (simp add: delete_resolved [OF r] delete_resolved [OF r'] dispatch_update_def
            dispatch_updateById_eq)
        (simp add: assms(3) entity_data_def apply_data_def)
  qed
  show ?thesis
    using object one two stored by blast
qed

text \<open>
  Deleted at time 10 by \<^verbatim>\<open>u1\<close>, then at time 20 by \<^verbatim>\<open>u2\<close>: the object carries the
  second stamp, the stored record the first, and the second call rejects.
\<close>

theorem delete_twice_witness:
  "delete (InheritingRepository (Some (\<lambda>_. Inr (Some \<lparr>user_id = JString ''u1''\<rparr>)))) 10
     \<lparr>getId = 1::nat, deleted = False, deletedOn = None, deletedBy = None, other = ()\<rparr> None
     [\<lparr>getId = 1, deleted = False, deletedOn = None, deletedBy = None, other = ()\<rparr>]
   = ((Inr (),
       [\<lparr>getId = 1, deleted = True, deletedOn = Some 10, deletedBy = Some ''u1'', other = ()\<rparr>]),
      \<lparr>getId = 1, deleted = True, deletedOn = Some 10, deletedBy = Some ''u1'', other = ()\<rparr>)
   \<and> delete (InheritingRepository (Some (\<lambda>_. Inr (Some \<lparr>user_id = JString ''u2''\<rparr>)))) 20
     \<lparr>getId = 1::nat, deleted = True, deletedOn = Some 10, deletedBy = Some ''u1'', other = ()\<rparr> None
     [\<lparr>getId = 1, deleted = True, deletedOn = Some 10, deletedBy = Some ''u1'', other = ()\<rparr>]
   = ((Inl EntityNotFoundError,
       [\<lparr>getId = 1, deleted = True, deletedOn = Some 10, deletedBy = Some ''u1'', other = ()\<rparr>]),
      \<lparr>getId = 1, deleted = True, deletedOn = Some 20, deletedBy = Some ''u2'', other = ()\<rparr>)"
  using
    delete_twice
      [where this = "InheritingRepository (Some (\<lambda>_. Inr (Some \<lparr>user_id = JString ''u1''\<rparr>)))"
         and this' = "InheritingRepository (Some (\<lambda>_. Inr (Some \<lparr>user_id = JString ''u2''\<rparr>)))"
         and getter = "Some (\<lambda>_. Inr (Some \<lparr>user_id = JString ''u1''\<rparr>))"
         and getter' = "Some (\<lambda>_. Inr (Some \<lparr>user_id = JString ''u2''\<rparr>))"
         and now = 10 and now' = 20 and options = None and options' = None
         and entity = "\<lparr>getId = 1::nat, deleted = False, deletedOn = None, deletedBy = None, other = ()\<rparr>"
         and st = "[\<lparr>getId = 1::nat, deleted = False, deletedOn = None, deletedBy = None, other = ()\<rparr>]"
         and stored = "[\<lparr>getId = 1::nat, deleted = False, deletedOn = None, deletedBy = None, other = ()\<rparr>]"
         and a = "Some ''u1''" and a' = "Some ''u2''" and uid = "Some ''u1''" and uid' = "Some ''u2''",
       OF refl refl refl]
  by (simp add: delete_def Let_def getUserId_def dispatch_update_def dispatch_updateById_def
        updateAll_def mem_updateAll_def produceSoftDeleteWhere_def matches_opt_def
        entity_data_def apply_data_def)

text \<open>
  C9 as stated fails for the stored record: the second \<^verbatim>\<open>delete(e)\<close>, at time 20,
  reaches the store through this class's \<^verbatim>\<open>updateAll\<close>, which excludes the record
  tombstoned at time 10; the call rejects and the stored \<open>deletedOn\<close> stays 10. No
  last writer wins in the store.
\<close>

theorem delete_twice_counterexample:
  "delete (InheritingRepository None) 10
     \<lparr>getId = 1::nat, deleted = False, deletedOn = None, deletedBy = None, other = ()\<rparr> None
     [\<lparr>getId = 1, deleted = False, deletedOn = None, deletedBy = None, other = ()\<rparr>]
   = ((Inr (),
       [\<lparr>getId = 1, deleted = True, deletedOn = Some 10, deletedBy = None, other = ()\<rparr>]),
      \<lparr>getId = 1, deleted = True, deletedOn = Some 10, deletedBy = None, other = ()\<rparr>)
   \<and> delete (InheritingRepository None) 20
     \<lparr>getId = 1::nat, deleted = True, deletedOn = Some 10, deletedBy = None, other = ()\<rparr> None
     [\<lparr>getId = 1, deleted = True, deletedOn = Some 10, deletedBy = None, other = ()\<rparr>]
   = ((Inl EntityNotFoundError,
       [\<lparr>getId = 1, deleted = True, deletedOn = Some 10, deletedBy = None, other = ()\<rparr>]),
      \<lparr>getId = 1, deleted = True, deletedOn = Some 20, deletedBy = None, other = ()\<rparr>)
   \<and> map deletedOn
        (snd (fst (delete (InheritingRepository None) 20
           \<lparr>getId = 1::nat, deleted = True, deletedOn = Some 10, deletedBy = None, other = ()\<rparr> None
           [\<lparr>getId = 1, deleted = True, deletedOn = Some 10, deletedBy = None, other = ()\<rparr>])))
       = [Some 10]"
  by (simp add: delete_def Let_def getUserId_def dispatch_update_def dispatch_updateById_def
        updateAll_def mem_updateAll_def produceSoftDeleteWhere_def matches_opt_def
        entity_data_def apply_data_def)

subsection \<open>The recorded actor\<close>

text \<open>
  C10. When the identity accessor yields a user, \<open>deletedBy\<close> is the string form of that
  user's id: a number is recorded as its decimal digits (42 as "42"), a string as
  itself; a falsy id (0, the empty string, \<^verbatim>\<open>null\<close>, \<^verbatim>\<open>undefined\<close>) is treated as no
  actor, and \<open>deletedBy\<close> is \<^verbatim>\<open>undefined\<close>. This is the value \<^verbatim>\<open>delete\<close> assigns to the
  entity and the value \<^verbatim>\<open>deleteAll\<close> and \<^verbatim>\<open>deleteById\<close> put in their patch.
\<close>

theorem deletedBy_is_id_toString:
  assumes "getCurrentUser this = Some getter" and "getter () = Inr (Some u)"
    and "uid = (case user_id u of
                  JNumber n \<Rightarrow> if n = 0 then None else Some (Number_toString n)
                | JString s \<Rightarrow> if s = [] then None else Some s
                | JNull \<Rightarrow> None
                | JUndefined \<Rightarrow> None)"
  shows "getUserId this options = Inr uid
       \<and> snd (delete this now entity opts st) =
           entity\<lparr>deleted := True, deletedOn := Some now, deletedBy := uid\<rparr>
       \<and> deleteAll this now whr opts st =
           super_updateAll this
             \<lparr>set_deleted = Some True, set_deletedOn = Some now, set_deletedBy = uid,
              set_other = id\<rparr>
             (Some (produceSoftDeleteWhere whr)) opts st
       \<and> deleteById this now i opts st =
           super_updateById this i
             \<lparr>set_deleted = Some True, set_deletedOn = Some now, set_deletedBy = uid,
              set_other = id\<rparr>
             opts st"
proof -
  have resolved: "getUserId this options' = Inr uid" for options'
    using assms by (simp add: getUserId_yields_user split: js_value.splits)
  show ?thesis
    using resolved [of options] resolved [of None]
    by (simp add: delete_resolved deleteAll_resolved deleteById_resolved)
qed

text \<open>
  The ids 42, 0, the empty string and \<^verbatim>\<open>null\<close>; with the id 42, \<^verbatim>\<open>deleteById(1)\<close>
  at time 7 on the reference store.
\<close>

theorem deletedBy_is_id_toString_witness:
  "getUserId (MemoryRepository (Some (\<lambda>_. Inr (Some \<lparr>user_id = JNumber 42\<rparr>)))
              :: (nat, unit, (nat, unit) SoftDeleteEntity list) Repository) None
     = Inr (Some ''42'')
   \<and> deleteById (MemoryRepository (Some (\<lambda>_. Inr (Some \<lparr>user_id = JNumber 42\<rparr>)))) 7 (1::nat) None
       [\<lparr>getId = 1, deleted = False, deletedOn = None, deletedBy = None, other = ()\<rparr>]
     = (Inr (), [\<lparr>getId = 1, deleted = True, deletedOn = Some 7, deletedBy = Some ''42'',
                  other = ()\<rparr>])
   \<and> getUserId (MemoryRepository (Some (\<lambda>_. Inr (Some \<lparr>user_id = JNumber 0\<rparr>)))
              :: (nat, unit, (nat, unit) SoftDeleteEntity list) Repository) None
     = Inr None
   \<and> getUserId (MemoryRepository (Some (\<lambda>_. Inr (Some \<lparr>user_id = JString []\<rparr>)))
              :: (nat, unit, (nat, unit) SoftDeleteEntity list) Repository) None
     = Inr None
   \<and> getUserId (MemoryRepository (Some (\<lambda>_. Inr (Some \<lparr>user_id = JNull\<rparr>)))
              :: (nat, unit, (nat, unit) SoftDeleteEntity list) Repository) None
     = Inr None"
  using
    deletedBy_is_id_toString
      [of "MemoryRepository (Some (\<lambda>_. Inr (Some \<lparr>user_id = JNumber 42\<rparr>)))
             :: (nat, unit, (nat, unit) SoftDeleteEntity list) Repository"
          "\<lambda>_. Inr (Some \<lparr>user_id = JNumber 42\<rparr>)" "\<lparr>user_id = JNumber 42\<rparr>" "Some ''42''"
          None 7 _ _ _ _ 1 ]
    deletedBy_is_id_toString
      [of "MemoryRepository (Some (\<lambda>_. Inr (Some \<lparr>user_id = JNumber 0\<rparr>)))
             :: (nat, unit, (nat, unit) SoftDeleteEntity list) Repository"
          "\<lambda>_. Inr (Some \<lparr>user_id = JNumber 0\<rparr>)" "\<lparr>user_id = JNumber 0\<rparr>" None None]
    deletedBy_is_id_toString
      [of "MemoryRepository (Some (\<lambda>_. Inr (Some \<lparr>user_id = JString []\<rparr>)))
             :: (nat, unit, (nat, unit) SoftDeleteEntity list) Repository"
          "\<lambda>_. Inr (Some \<lparr>user_id = JString []\<rparr>)" "\<lparr>user_id = JString []\<rparr>" None None]
    deletedBy_is_id_toString
      [of "MemoryRepository (Some (\<lambda>_. Inr (Some \<lparr>user_id = JNull\<rparr>)))
             :: (nat, unit, (nat, unit) SoftDeleteEntity list) Repository"
          "\<lambda>_. Inr (Some \<lparr>user_id = JNull\<rparr>)" "\<lparr>user_id = JNull\<rparr>" None None]
  by (simp add: MemoryRepository_def Number_toString_def digits_of_nat.simps digit_char_def
        mem_updateById_def apply_data_def)

end
